theory Spec2Isabelle
  imports Main
begin

section \<open>Python values used by the agent\<close>

text \<open>
  The dictionaries of the program are \<open>Dict[str, Any]\<close>. The values that the source
  stores in them or tests are \<open>None\<close>, booleans, integers, strings and lists; a
  dictionary is an association list in insertion order, as Python keeps it.
\<close>

datatype pyval = PNone | PBool bool | PInt int | PStr string | PList "pyval list"

type_synonym pydict = "(string \<times> pyval) list"

text \<open>Truth value testing (\<open>if x:\<close>) of a value.\<close>

fun truthy :: "pyval \<Rightarrow> bool" where
  "truthy PNone = False"
| "truthy (PBool b) = b"
| "truthy (PInt i) = (i \<noteq> 0)"
| "truthy (PStr s) = (s \<noteq> [])"
| "truthy (PList xs) = (xs \<noteq> [])"

text \<open>\<open>d.get(k)\<close> and \<open>d.get(k, default)\<close>.\<close>

definition dict_get :: "pydict \<Rightarrow> string \<Rightarrow> pyval" where
  "dict_get d k = (case map_of d k of None \<Rightarrow> PNone | Some v \<Rightarrow> v)"

definition dict_get_default :: "pydict \<Rightarrow> string \<Rightarrow> pyval \<Rightarrow> pyval" where
  "dict_get_default d k dflt = (case map_of d k of None \<Rightarrow> dflt | Some v \<Rightarrow> v)"

text \<open>
  \<open>d[k] = v\<close>: an existing key keeps its position and gets the new value, a new key
  goes to the end.
\<close>

fun dict_set :: "string \<Rightarrow> pyval \<Rightarrow> pydict \<Rightarrow> pydict" where
  "dict_set k v [] = [(k, v)]"
| "dict_set k v (p # ps) = (if fst p = k then (k, v) # ps else p # dict_set k v ps)"

text \<open>Truth value of an \<open>Optional[str]\<close>: \<open>None\<close> and the empty string are false.\<close>

fun truthy_str :: "string option \<Rightarrow> bool" where
  "truthy_str None = False"
| "truthy_str (Some s) = (s \<noteq> [])"

definition nl :: string where
  "nl = [CHR 0x0A]"

text \<open>\<open>s.startswith(p)\<close>.\<close>

definition startswith :: "string \<Rightarrow> string \<Rightarrow> bool" where
  "startswith s p = (take (length p) s = p)"

text \<open>\<open>str(n)\<close> of a natural number, as an f-string renders a counter.\<close>

definition digit_char :: "nat \<Rightarrow> char" where
  "digit_char d = (''0123456789'' ! d)"

fun str_nat :: "nat \<Rightarrow> string" where
  "str_nat n = (if n < 10 then [digit_char n]
                else str_nat (n div 10) @ [digit_char (n mod 10)])"

declare str_nat.simps [simp del]

text \<open>\<open>for i, x in enumerate(xs, 1)\<close> with the line \<open>f"{i}. {x}\n"\<close> appended to the body.\<close>

fun numbered_lines :: "nat \<Rightarrow> string list \<Rightarrow> string" where
  "numbered_lines i [] = []"
| "numbered_lines i (x # xs) = str_nat i @ ''. '' @ x @ nl @ numbered_lines (Suc i) xs"

text \<open>\<open>sep.join(xs)\<close>.\<close>

fun join :: "string \<Rightarrow> string list \<Rightarrow> string" where
  "join sep [] = []"
| "join sep [x] = x"
| "join sep (x # y # ys) = x @ sep @ join sep (y # ys)"

text \<open>\<open>"".join(f"<li>{x}</li>" for x in xs)\<close>.\<close>

definition li_items :: "string list \<Rightarrow> string" where
  "li_items xs = concat (map (\<lambda>x. ''<li>'' @ x @ ''</li>'') xs)"


section \<open>email\_sender.py\<close>

text \<open>
  A \<open>MIMEMultipart('alternative')\<close> message: the headers that \<open>send_email\<close>
  sets, in the order it sets them, and the attached parts as (text, subtype).
\<close>

record mime_message =
  headers :: "(string \<times> string) list"
  parts :: "(string \<times> string) list"

definition get_header :: "mime_message \<Rightarrow> string \<Rightarrow> string option" where
  "get_header m h = map_of (headers m) h"

text \<open>
  The part of \<open>send_email\<close> that builds the message (lines 63 to 82): From, To and
  Subject; In-Reply-To when \<open>in_reply_to\<close> is true; References from \<open>references\<close>
  when that is true, else from \<open>in_reply_to\<close> when that is true; the plain part; the
  html part when \<open>html_body\<close> is true.
\<close>

fun header_if :: "string \<Rightarrow> string option \<Rightarrow> (string \<times> string) list" where
  "header_if h None = []"
| "header_if h (Some v) = (if v \<noteq> [] then [(h, v)] else [])"

fun attach_if :: "string \<Rightarrow> string option \<Rightarrow> (string \<times> string) list" where
  "attach_if subtype None = []"
| "attach_if subtype (Some text) = (if text \<noteq> [] then [(text, subtype)] else [])"

definition build_message ::
  "string \<Rightarrow> string \<Rightarrow> string \<Rightarrow> string \<Rightarrow> string option \<Rightarrow> string option
     \<Rightarrow> string option \<Rightarrow> mime_message" where
  "build_message email_address recipient subject body in_reply_to references html_body =
     \<lparr> headers =
         [(''From'', email_address), (''To'', recipient), (''Subject'', subject)]
         @ header_if ''In-Reply-To'' in_reply_to
         @ (if truthy_str references then header_if ''References'' references
            else header_if ''References'' in_reply_to),
       parts = [(body, ''plain'')] @ attach_if ''html'' html_body \<rparr>"

text \<open>
  The SMTP session (connect, STARTTLS, login, send, quit) is outside the repository:
  \<open>smtp\<close> says whether it goes through for a message without raising. The outbox is
  the list of messages the server accepted. \<open>send_email\<close> catches every exception
  and returns \<open>False\<close>.
\<close>

definition send_email ::
  "(mime_message \<Rightarrow> bool) \<Rightarrow> string \<Rightarrow> string \<Rightarrow> string \<Rightarrow> string \<Rightarrow> string option
     \<Rightarrow> string option \<Rightarrow> string option \<Rightarrow> mime_message list \<Rightarrow> bool \<times> mime_message list" where
  "send_email smtp email_address recipient subject body in_reply_to references html_body outbox =
     (let message = build_message email_address recipient subject body in_reply_to references
                      html_body
      in if smtp message then (True, outbox @ [message]) else (False, outbox))"

text \<open>The subject rule of \<open>send_clarification_email\<close> (lines 140 to 146).\<close>

definition clarification_subject :: "string option \<Rightarrow> string \<Rightarrow> string" where
  "clarification_subject in_reply_to subject =
     (if \<not> truthy_str in_reply_to then ''Clarification needed: '' @ subject
      else if \<not> startswith subject ''Re:'' then ''Re: '' @ subject
      else subject)"

definition clarification_body :: "string list \<Rightarrow> string" where
  "clarification_body questions =
     ''I need some clarification to better assist you:'' @ nl @ nl
     @ numbered_lines 1 questions
     @ nl @ ''Please reply to this email with your answers.''"

definition clarification_html :: "string list \<Rightarrow> string" where
  "clarification_html questions =
     nl @ ''        <html>'' @ nl
     @ ''        <body>'' @ nl
     @ ''            <p>I need some clarification to better assist you:</p>'' @ nl
     @ ''            <ol>'' @ nl
     @ ''                '' @ li_items questions @ nl
     @ ''            </ol>'' @ nl
     @ ''            <p>Please reply to this email with your answers.</p>'' @ nl
     @ ''        </body>'' @ nl
     @ ''        </html>'' @ nl
     @ ''        ''"

definition send_clarification_email ::
  "(mime_message \<Rightarrow> bool) \<Rightarrow> string \<Rightarrow> string \<Rightarrow> string \<Rightarrow> string list \<Rightarrow> string option
     \<Rightarrow> string option \<Rightarrow> mime_message list \<Rightarrow> bool \<times> mime_message list" where
  "send_clarification_email smtp email_address recipient subject questions in_reply_to
       references outbox =
     send_email smtp email_address recipient (clarification_subject in_reply_to subject)
       (clarification_body questions) in_reply_to references
       (Some (clarification_html questions)) outbox"

text \<open>The subject rule of \<open>send_completion_email\<close> (lines 204 to 210).\<close>

definition completion_subject :: "string option \<Rightarrow> string \<Rightarrow> string" where
  "completion_subject in_reply_to subject =
     (if \<not> truthy_str in_reply_to then ''Completed: '' @ subject
      else if \<not> startswith subject ''Re:'' then ''Re: '' @ subject
      else subject)"

definition completion_body :: "string \<Rightarrow> string list \<Rightarrow> string" where
  "completion_body task_summary actions_performed =
     ''Task completed! Here's a summary of what I did:'' @ nl @ nl @ task_summary @ nl @ nl
     @ ''Actions performed:'' @ nl
     @ numbered_lines 1 actions_performed
     @ nl @ ''Please let me know if you need anything else.''"

definition completion_html :: "string \<Rightarrow> string list \<Rightarrow> string" where
  "completion_html task_summary actions_performed =
     nl @ ''        <html>'' @ nl
     @ ''        <body>'' @ nl
     @ ''            <p><strong>Task completed!</strong> Here's a summary of what I did:</p>'' @ nl
     @ ''            <p>'' @ task_summary @ ''</p>'' @ nl
     @ ''            '' @ nl
     @ ''            <p><strong>Actions performed:</strong></p>'' @ nl
     @ ''            <ol>'' @ nl
     @ ''                '' @ li_items actions_performed @ nl
     @ ''            </ol>'' @ nl
     @ ''            '' @ nl
     @ ''            <p>Please let me know if you need anything else.</p>'' @ nl
     @ ''        </body>'' @ nl
     @ ''        </html>'' @ nl
     @ ''        ''"

definition send_completion_email ::
  "(mime_message \<Rightarrow> bool) \<Rightarrow> string \<Rightarrow> string \<Rightarrow> string \<Rightarrow> string \<Rightarrow> string list
     \<Rightarrow> string option \<Rightarrow> string option \<Rightarrow> mime_message list \<Rightarrow> bool \<times> mime_message list" where
  "send_completion_email smtp email_address recipient subject task_summary actions_performed
       in_reply_to references outbox =
     send_email smtp email_address recipient (completion_subject in_reply_to subject)
       (completion_body task_summary actions_performed) in_reply_to references
       (Some (completion_html task_summary actions_performed)) outbox"


section \<open>Exceptions\<close>

text \<open>
  The exceptions that the modelled code can meet; all are instances of \<open>Exception\<close>,
  the class the handlers of the source catch.
  \<^item> \<open>DuplicateKeyword k\<close>: a call received the keyword \<open>k\<close> twice, once from a
    \<open>**mapping\<close> and once written out. The language reference (Calls): "If a keyword
    is already present (as an explicit keyword argument, or from another unpacking), a
    TypeError exception is raised." (CPython 3.11 reports a KeyError instead when the
    call stands in an \<open>except\<close> block; in both cases the call raises an instance of
    \<open>Exception\<close> and builds nothing.)
  \<^item> \<open>AttributeError a\<close>: attribute \<open>a\<close> looked up on \<open>None\<close>.
  \<^item> \<open>Exception m\<close>: any exception of a collaborator, with its message.
\<close>

datatype exn = DuplicateKeyword string | AttributeError string | Exception string

text \<open>\<open>str(e)\<close>; the class is named without the path of its module.\<close>

fun exn_str :: "exn \<Rightarrow> string" where
  "exn_str (DuplicateKeyword k) =
     ''AgentState() got multiple values for keyword argument '' @ [CHR 0x27] @ k @ [CHR 0x27]"
| "exn_str (AttributeError a) =
     [CHR 0x27] @ ''NoneType'' @ [CHR 0x27] @ '' object has no attribute ''
     @ [CHR 0x27] @ a @ [CHR 0x27]"
| "exn_str (Exception m) = m"


section \<open>query\_engine.py\<close>

record TaskDetails =
  website :: string
  action_type :: string
  target :: "string option"
  td_additional_context :: "pydict option"

text \<open>
  The fields \<open>clarification_questions\<close> and \<open>task_details\<close> of
  \<open>QueryInterpretation\<close> carry the prefix \<open>qi_\<close> here, since \<open>AgentState\<close> has
  fields of the same names; the field \<open>additional_context\<close> of \<open>TaskDetails\<close>
  carries \<open>td_\<close>, the name being a parameter of the task executor.
\<close>

record QueryInterpretation =
  task_type :: string
  requires_clarification :: bool
  qi_clarification_questions :: "string list option"
  qi_task_details :: TaskDetails

text \<open>The value built in the \<open>except\<close> branch of \<open>interpret_query\<close> (lines 111 to 119).\<close>

definition fallback_interpretation :: QueryInterpretation where
  "fallback_interpretation =
     \<lparr> task_type = ''unknown'',
       requires_clarification = True,
       qi_clarification_questions =
         Some [''Could you please provide more details about what you'' @ [CHR 0x27]
               @ ''d like me to do?''],
       qi_task_details =
         \<lparr> website = [], action_type = ''unknown'', target = None,
           td_additional_context = None \<rparr> \<rparr>"

text \<open>
  \<open>interpret_query\<close>: \<open>arun\<close> is the call of the LLM chain on the email content and
  \<open>parse\<close> the output parser; each returns its value or raises. The \<open>try\<close> block is
  the inner \<open>case\<close>, the \<open>except Exception\<close> clause the outer one.
\<close>

definition interpret_query ::
  "(string \<Rightarrow> exn + string) \<Rightarrow> (string \<Rightarrow> exn + QueryInterpretation) \<Rightarrow> string
     \<Rightarrow> exn + QueryInterpretation" where
  "interpret_query arun parse email_content =
     (case (case arun email_content of
              Inl e \<Rightarrow> Inl e
            | Inr result \<Rightarrow> parse result) of
        Inr interpretation \<Rightarrow> Inr interpretation
      | Inl e \<Rightarrow> Inr fallback_interpretation)"


section \<open>task\_executor.py\<close>

text \<open>The tuple \<open>(success_status, task_results, action_log)\<close>.\<close>

type_synonym outcome = "bool \<times> pydict \<times> string list"

text \<open>
  The f-strings of this module render values of type \<open>Any\<close> with Python's built-in
  \<open>str\<close>; the functions take it as \<open>py_str\<close>. \<open>py_str_scalar\<close> is \<open>str\<close> on
  \<open>None\<close>, booleans, integers, strings and lists without strings, for use at
  concrete inputs.
\<close>

definition str_int :: "int \<Rightarrow> string" where
  "str_int i = (if i < 0 then ''-'' @ str_nat (nat (- i)) else str_nat (nat i))"

fun py_str_scalar :: "pyval \<Rightarrow> string" where
  "py_str_scalar PNone = ''None''"
| "py_str_scalar (PBool b) = (if b then ''True'' else ''False'')"
| "py_str_scalar (PInt i) = str_int i"
| "py_str_scalar (PStr s) = s"
| "py_str_scalar (PList xs) = ''['' @ join '', '' (map py_str_scalar xs) @ '']''"

text \<open>The task text handed to the browser agent (lines 53 to 58).\<close>

definition contextualized_task :: "(pyval \<Rightarrow> string) \<Rightarrow> string \<Rightarrow> pydict option \<Rightarrow> string" where
  "contextualized_task py_str task_description additional_context =
     (case additional_context of
        None \<Rightarrow> task_description
      | Some ctx \<Rightarrow>
          if ctx = [] then task_description
          else task_description @ nl @ nl @ ''Additional context:'' @ nl
               @ concat (map (\<lambda>(key, v). ''- '' @ key @ '': '' @ py_str v @ nl) ctx))"

text \<open>
  \<open>execute_task\<close>: \<open>agent_run\<close> is the browser agent (its construction and its
  \<open>run\<close>), which returns its results or raises. The action log stays empty: the
  callback \<open>log_action\<close> is defined and never registered.
\<close>

definition execute_task ::
  "(string \<Rightarrow> exn + pyval) \<Rightarrow> (pyval \<Rightarrow> string) \<Rightarrow> string \<Rightarrow> pydict option \<Rightarrow> outcome" where
  "execute_task agent_run py_str task_description additional_context =
     (case agent_run (contextualized_task py_str task_description additional_context) of
        Inr agent_results \<Rightarrow>
          (True, [(''completed'', PBool True), (''results'', agent_results)], [])
      | Inl e \<Rightarrow>
          (False, [(''error'', PStr (exn_str e)), (''completed'', PBool False)], []))"

text \<open>\<open>additional_context or {}\<close>.\<close>

fun context_or_empty :: "pydict option \<Rightarrow> pydict" where
  "context_or_empty None = []"
| "context_or_empty (Some ctx) = ctx"

text \<open>
  \<open>handle_task_with_confirmation\<close>. The method calls \<open>self.execute_task\<close>, taken
  here as the parameter \<open>exec\<close> so that an executor that asks for confirmation can be
  put in its place; the callback returns its answer or raises. Besides the outcome, or
  the exception of the callback, the model returns the list of the calls of \<open>exec\<close>
  it made, each with its arguments, in order.
\<close>

definition handle_task_with_confirmation ::
  "(string \<Rightarrow> pydict option \<Rightarrow> outcome) \<Rightarrow> (pyval \<Rightarrow> string) \<Rightarrow> string
     \<Rightarrow> (pyval \<Rightarrow> exn + pyval) \<Rightarrow> pydict option
     \<Rightarrow> (exn \<times> (string \<times> pydict option) list)
         + (outcome \<times> (string \<times> pydict option) list)" where
  "handle_task_with_confirmation exec py_str task_description confirmation_callback
       additional_context =
     (case exec task_description additional_context of
        (success, results, actions) \<Rightarrow>
          if success \<and> truthy (dict_get results ''needs_confirmation'') then
            (let options = dict_get_default results ''confirmation_options'' (PList [])
             in case confirmation_callback options of
                  Inl e \<Rightarrow> Inl (e, [(task_description, additional_context)])
                | Inr confirmation_result \<Rightarrow>
                    if truthy confirmation_result then
                      (let updated_context =
                             dict_set ''user_confirmation'' confirmation_result
                               (context_or_empty additional_context);
                           continue_task =
                             task_description @ nl @ nl @ ''Confirmation received: ''
                             @ py_str confirmation_result
                       in Inr (exec continue_task (Some updated_context),
                               [(task_description, additional_context),
                                (continue_task, Some updated_context)]))
                    else Inr ((success, results, actions),
                              [(task_description, additional_context)]))
          else Inr ((success, results, actions), [(task_description, additional_context)]))"

text \<open>The calls of the executor that a run of the method made.\<close>

fun executor_calls ::
  "(exn \<times> (string \<times> pydict option) list) + (outcome \<times> (string \<times> pydict option) list)
     \<Rightarrow> (string \<times> pydict option) list" where
  "executor_calls (Inl (e, calls)) = calls"
| "executor_calls (Inr (out, calls)) = calls"


section \<open>workflows/agent\_workflow.py\<close>

datatype message = HumanMessage string | AIMessage string

record AgentState =
  email_data :: pydict
  conversation_history :: "message list"
  task :: string
  task_details :: "pydict option"
  needs_clarification :: bool
  clarification_questions :: "string list option"
  browser_state :: "pydict option"
  action_log :: "string list"
  completed :: bool
  results :: "pydict option"
  error :: "string option"

text \<open>The keys of \<open>state.model_dump()\<close>: every field of the model.\<close>

definition model_dump_keys :: "string list" where
  "model_dump_keys =
     [''email_data'', ''conversation_history'', ''task'', ''task_details'',
      ''needs_clarification'', ''clarification_questions'', ''browser_state'',
      ''action_log'', ''completed'', ''results'', ''error'']"

text \<open>
  The call \<open>AgentState(**state.model_dump(), k1=v1, ..., kn=vn)\<close>. The keyword
  arguments of a call are the entries of the unpacked mapping followed by the keywords
  written out; a keyword that occurs twice makes the call raise before the class is
  entered. \<open>keywords\<close> are the names written out, in order, and \<open>built\<close> is the
  state that the call builds when no name is given twice.
\<close>

definition AgentState_call :: "string list \<Rightarrow> AgentState \<Rightarrow> exn + AgentState" where
  "AgentState_call keywords built =
     (case filter (\<lambda>k. k \<in> set model_dump_keys) keywords of
        [] \<Rightarrow> Inr built
      | k # _ \<Rightarrow> Inl (DuplicateKeyword k))"

subsection \<open>Nodes\<close>

definition analyze_task :: "AgentState \<Rightarrow> exn + AgentState" where
  "analyze_task state =
     (if task_details state = None then
        AgentState_call [''task_details'', ''needs_clarification'']
          (state\<lparr>task_details := Some [(''interpreted'', PBool True)],
                 needs_clarification := needs_clarification state\<rparr>)
      else Inr state)"

definition question_text :: "string list \<Rightarrow> string" where
  "question_text questions =
     ''I need some clarification:'' @ nl @ join nl (map (\<lambda>q. ''- '' @ q) questions)"

definition request_clarification :: "AgentState \<Rightarrow> exn + AgentState" where
  "request_clarification state =
     (case clarification_questions state of
        None \<Rightarrow> Inr state
      | Some questions \<Rightarrow>
          if questions = [] then Inr state
          else Inr (state\<lparr>conversation_history :=
                             conversation_history state @ [AIMessage (question_text questions)],
                           needs_clarification := False\<rparr>))"

text \<open>
  The node \<open>execute_task\<close> of the workflow, named \<open>workflow_execute_task\<close> here
  because the task executor has a method of the same name.
\<close>

definition workflow_execute_task :: "AgentState \<Rightarrow> exn + AgentState" where
  "workflow_execute_task state =
     AgentState_call [''browser_state'', ''action_log'', ''completed'']
       (state\<lparr>browser_state := Some [(''executed'', PBool True)],
              action_log := [''Opened browser'', ''Performed action'', ''Completed task''],
              completed := True\<rparr>)"

text \<open>\<open>state.browser_state and state.browser_state.get("executed", False)\<close>.\<close>

definition browser_executed :: "AgentState \<Rightarrow> bool" where
  "browser_executed state =
     (case browser_state state of
        None \<Rightarrow> False
      | Some b \<Rightarrow> b \<noteq> [] \<and> truthy (dict_get_default b ''executed'' (PBool False)))"

definition handle_execution_results :: "AgentState \<Rightarrow> exn + AgentState" where
  "handle_execution_results state =
     (if browser_executed state then
        Inr (state\<lparr>results :=
                      Some [(''success'', PBool True),
                            (''summary'', PStr ''Task completed successfully''),
                            (''details'',
                             PStr ''Browser automation task was executed as requested.'')]\<rparr>)
      else
        Inr (state\<lparr>needs_clarification := True,
                    clarification_questions :=
                      Some [''Could you provide more details about the task?''],
                    error := Some ''Failed to execute the task''\<rparr>))"

definition prepare_report :: "(pyval \<Rightarrow> string) \<Rightarrow> AgentState \<Rightarrow> exn + AgentState" where
  "prepare_report py_str state =
     (case results state of
        None \<Rightarrow> Inl (AttributeError ''get'')
      | Some r \<Rightarrow>
          Inr (state\<lparr>conversation_history :=
                        conversation_history state
                        @ [AIMessage (''Task completed! Here's a summary:'' @ nl @ nl
                                      @ py_str (dict_get_default r ''summary'' (PStr [])))]\<rparr>))"

subsection \<open>Routing predicates\<close>

text \<open>
  The method \<open>needs_clarification\<close> of the workflow returns the field of the same name;
  it is \<open>needs_clarification_route\<close> here.
\<close>

definition needs_clarification_route :: "AgentState \<Rightarrow> bool" where
  "needs_clarification_route state = needs_clarification state"

definition is_execution_complete :: "AgentState \<Rightarrow> bool" where
  "is_execution_complete state = (completed state \<and> \<not> needs_clarification state)"

text \<open>
  The specification's reading of the same predicate is over \<open>s.result.success\<close>:
  the result is present and its entry \<open>success\<close> is true.
\<close>

definition spec_result_success :: "AgentState \<Rightarrow> bool" where
  "spec_result_success state =
     (case results state of None \<Rightarrow> False | Some r \<Rightarrow> truthy (dict_get r ''success''))"

subsection \<open>The graph\<close>

text \<open>
  The compiled graph belongs to a library outside the repository. It is modelled by
  what \<open>_build_workflow_graph\<close> declares: the run starts at the entry point, executes
  the function of the current node on the state, and follows the edge of that node, for
  a conditional edge to the node that the mapping gives for the value of the routing
  predicate on the new state, until it arrives at \<open>END\<close>. An exception of a node ends
  the run.

  Two facts of the library stay outside the model. The source hands
  \<open>add_conditional_edges\<close> the node, the mapping and the routing method in this
  order, where the library takes the routing callable before the mapping; the model
  takes each conditional edge as the mapping and the comment of the source declare it.
  The library stops a run that exceeds its limit of steps (25 unless configured) with
  an error of its own; the model gives such a run more fuel, and \<open>None\<close> stands for
  a run that has not ended within the fuel it was given.
\<close>

datatype node =
  AnalyzeTask | RequestClarification | ExecuteTask | HandleExecutionResults | PrepareReport
  | END

fun run_node :: "(pyval \<Rightarrow> string) \<Rightarrow> node \<Rightarrow> AgentState \<Rightarrow> exn + AgentState" where
  "run_node py_str AnalyzeTask state = analyze_task state"
| "run_node py_str RequestClarification state = request_clarification state"
| "run_node py_str ExecuteTask state = workflow_execute_task state"
| "run_node py_str HandleExecutionResults state = handle_execution_results state"
| "run_node py_str PrepareReport state = prepare_report py_str state"
| "run_node py_str END state = Inr state"

fun next_node :: "node \<Rightarrow> AgentState \<Rightarrow> node" where
  "next_node AnalyzeTask state =
     (if needs_clarification_route state then RequestClarification else ExecuteTask)"
| "next_node RequestClarification state = AnalyzeTask"
| "next_node ExecuteTask state = HandleExecutionResults"
| "next_node HandleExecutionResults state =
     (if is_execution_complete state then PrepareReport else RequestClarification)"
| "next_node PrepareReport state = END"
| "next_node END state = END"

definition entry_point :: node where
  "entry_point = AnalyzeTask"

text \<open>
  \<open>ainvoke\<close> from a node, with fuel for the number of node executions: \<open>None\<close> when
  the run has not ended within the fuel, else the final state or the exception, and the
  nodes executed, in order.
\<close>

fun ainvoke ::
  "(pyval \<Rightarrow> string) \<Rightarrow> nat \<Rightarrow> node \<Rightarrow> AgentState \<Rightarrow> node list
     \<Rightarrow> ((exn + AgentState) \<times> node list) option" where
  "ainvoke py_str 0 n state executed =
     (if n = END then Some (Inr state, executed) else None)"
| "ainvoke py_str (Suc fuel) n state executed =
     (if n = END then Some (Inr state, executed)
      else case run_node py_str n state of
             Inl e \<Rightarrow> Some (Inl e, executed @ [n])
           | Inr state' \<Rightarrow> ainvoke py_str fuel (next_node n state') state' (executed @ [n]))"

text \<open>
  \<open>run\<close>: the result of the graph, or in the \<open>except Exception\<close> clause the call
  \<open>AgentState(**initial_state.model_dump(), error=str(e))\<close>.
\<close>

definition run :: "(pyval \<Rightarrow> string) \<Rightarrow> nat \<Rightarrow> AgentState \<Rightarrow> (exn + AgentState) option" where
  "run py_str fuel initial_state =
     (case ainvoke py_str fuel entry_point initial_state [] of
        None \<Rightarrow> None
      | Some (Inr result, executed) \<Rightarrow> Some (Inr result)
      | Some (Inl e, executed) \<Rightarrow>
          Some (AgentState_call [''error''] (initial_state\<lparr>error := Some (exn_str e)\<rparr>)))"

text \<open>
  The configurations (node about to run, state) that a run passes through from a
  given configuration.
\<close>

inductive reaches :: "(pyval \<Rightarrow> string) \<Rightarrow> node \<times> AgentState \<Rightarrow> node \<times> AgentState \<Rightarrow> bool"
  for py_str :: "pyval \<Rightarrow> string" and c :: "node \<times> AgentState" where
  start: "reaches py_str c c"
| step: "reaches py_str c (n, state) \<Longrightarrow> n \<noteq> END \<Longrightarrow> run_node py_str n state = Inr state'
         \<Longrightarrow> reaches py_str c (next_node n state', state')"


section \<open>Concrete inputs\<close>

text \<open>An SMTP session that goes through.\<close>

definition smtp_accepts :: "mime_message \<Rightarrow> bool" where
  "smtp_accepts m = True"

text \<open>An LLM chain that raises, one that answers, and a parser that rejects the answer.\<close>

definition llm_unavailable :: "string \<Rightarrow> exn + string" where
  "llm_unavailable email_content = Inl (Exception ''Request timed out.'')"

definition llm_answers :: "string \<Rightarrow> exn + string" where
  "llm_answers email_content = Inr ''I am not sure what you mean.''"

definition parse_rejects :: "string \<Rightarrow> exn + QueryInterpretation" where
  "parse_rejects output = Inl (Exception ''Invalid json output'')"

text \<open>An executor that asks for confirmation at every call, and two callbacks.\<close>

definition confirm_results :: pydict where
  "confirm_results =
     [(''needs_confirmation'', PBool True),
      (''confirmation_options'', PList [PStr ''Senior Engineer'', PStr ''Staff Engineer''])]"

definition always_confirm :: "string \<Rightarrow> pydict option \<Rightarrow> outcome" where
  "always_confirm task_description additional_context = (True, confirm_results, [])"

definition select_first :: "pyval \<Rightarrow> exn + pyval" where
  "select_first options =
     (case options of PList (x # xs) \<Rightarrow> Inr x | _ \<Rightarrow> Inr PNone)"

definition no_selection :: "pyval \<Rightarrow> exn + pyval" where
  "no_selection options = Inr PNone"

text \<open>
  A callback that answers with the index of the chosen option and chooses the first;
  an executor whose attempt failed and still reports that a confirmation is needed; a
  context that the caller passes along.
\<close>

definition select_index :: "pyval \<Rightarrow> exn + pyval" where
  "select_index options = Inr (PInt 0)"

definition failed_confirm :: "string \<Rightarrow> pydict option \<Rightarrow> outcome" where
  "failed_confirm task_description additional_context = (False, confirm_results, [])"

definition job_context :: pydict where
  "job_context = [(''site'', PStr ''jobs.example''), (''location'', PStr ''Paris'')]"

text \<open>
  The specification's outcome for a confirmation that was not given: a failed outcome
  with the error "confirmation not provided".
\<close>

definition spec_confirmation_not_provided :: "outcome \<Rightarrow> bool" where
  "spec_confirmation_not_provided out =
     (case out of
        (success, res, acts) \<Rightarrow>
          \<not> success \<and> dict_get res ''error'' = PStr ''confirmation not provided'')"

text \<open>
  States of the workflow: a new conversation; one whose task is interpreted; one that
  waits for an answer to a question; one whose browser task ran and whose results are
  not yet recorded.
\<close>

definition fresh_state :: AgentState where
  "fresh_state =
     \<lparr> email_data = [(''message_id'', PStr ''<m1@mail.example>'')],
       conversation_history = [],
       task = ''Apply to the job'',
       task_details = None,
       needs_clarification = False,
       clarification_questions = None,
       browser_state = None,
       action_log = [],
       completed = False,
       results = None,
       error = None \<rparr>"

definition interpreted_state :: AgentState where
  "interpreted_state = fresh_state\<lparr>task_details := Some [(''interpreted'', PBool True)]\<rparr>"

definition awaiting_state :: AgentState where
  "awaiting_state =
     interpreted_state\<lparr>needs_clarification := True,
                       clarification_questions := Some [''Which job title?'']\<rparr>"

definition executed_state :: AgentState where
  "executed_state =
     interpreted_state\<lparr>browser_state := Some [(''executed'', PBool True)],
                       action_log := [''Opened browser'', ''Performed action'', ''Completed task''],
                       completed := True\<rparr>"

text \<open>
  The invariant of the graph: at the report node and at the end, no clarification is
  pending.
\<close>

definition report_inv :: "node \<times> AgentState \<Rightarrow> bool" where
  "report_inv c = (fst c = PrepareReport \<or> fst c = END \<longrightarrow> \<not> needs_clarification (snd c))"


section \<open>Properties of the email sender\<close>

lemma reply_prefix_kept: "startswith (''Re: '' @ s) ''Re:''"
  by (simp add: startswith_def)

lemma send_clarification_email_subject:
  "send_clarification_email smtp a r subject qs irt refs outbox = (True, outbox') \<Longrightarrow>
     get_header (last outbox') ''Subject'' = Some (clarification_subject irt subject)"
  by (auto simp add: send_clarification_email_def send_email_def Let_def get_header_def
        build_message_def split: if_splits)

lemma send_completion_email_subject:
  "send_completion_email smtp a r subject summary acts irt refs outbox = (True, outbox') \<Longrightarrow>
     get_header (last outbox') ''Subject'' = Some (completion_subject irt subject)"
  by (auto simp add: send_completion_email_def send_email_def Let_def get_header_def
        build_message_def split: if_splits)

text \<open>
  Claim C7. For a reply (\<open>in_reply_to\<close> is given), the subject rule of the
  clarification email and of the completion email is idempotent: applied to its own
  result it changes nothing, so a subject never gets a second "Re:". The same holds
  when a completion email follows a clarification email on the same subject.
\<close>

theorem re_prefix_idempotent:
  "truthy_str in_reply_to \<Longrightarrow>
     clarification_subject in_reply_to (clarification_subject in_reply_to subject)
       = clarification_subject in_reply_to subject
   \<and> completion_subject in_reply_to (completion_subject in_reply_to subject)
       = completion_subject in_reply_to subject
   \<and> completion_subject in_reply_to (clarification_subject in_reply_to subject)
       = clarification_subject in_reply_to subject"
  using reply_prefix_kept [of subject]
  by (simp add: clarification_subject_def completion_subject_def)

theorem re_prefix_idempotent_witness:
  "truthy_str (Some ''<m1@mail.example>'')
   \<and> clarification_subject (Some ''<m1@mail.example>'') ''Job search'' = ''Re: Job search''
   \<and> clarification_subject (Some ''<m1@mail.example>'')
        (clarification_subject (Some ''<m1@mail.example>'') ''Job search'') = ''Re: Job search''
   \<and> completion_subject (Some ''<m1@mail.example>'')
        (completion_subject (Some ''<m1@mail.example>'') ''Job search'') = ''Re: Job search''
   \<and> completion_subject (Some ''<m1@mail.example>'')
        (clarification_subject (Some ''<m1@mail.example>'') ''Job search'') = ''Re: Job search''"
  using re_prefix_idempotent [of "Some ''<m1@mail.example>''" "''Job search''"]
  by (simp add: clarification_subject_def completion_subject_def startswith_def)

text \<open>
  Claim C8. Every message that \<open>send_email\<close> dispatches is the one built from its
  arguments; its References header is \<open>references\<close> when that is given and not empty,
  and otherwise \<open>in_reply_to\<close> when that is given and not empty (no header when
  neither is). In particular \<open>in_reply_to = "A"\<close> without references gives
  References "A".
\<close>

theorem references_fallback:
  "send_email smtp a r s b irt refs html outbox = (True, outbox') \<Longrightarrow>
     outbox' = outbox @ [build_message a r s b irt refs html]
     \<and> get_header (last outbox') ''In-Reply-To'' = (if truthy_str irt then irt else None)
     \<and> get_header (last outbox') ''References''
          = (if truthy_str refs then refs else if truthy_str irt then irt else None)"
  by (cases irt; cases refs)
     (auto simp add: send_email_def Let_def get_header_def build_message_def split: if_splits)

theorem references_fallback_witness:
  "send_email smtp_accepts ''agent@mail.example'' ''user@mail.example'' ''Re: Job search''
       ''Task completed!'' (Some ''A'') None None []
     = (True, [build_message ''agent@mail.example'' ''user@mail.example'' ''Re: Job search''
                 ''Task completed!'' (Some ''A'') None None])
   \<and> get_header
        (last [build_message ''agent@mail.example'' ''user@mail.example'' ''Re: Job search''
                 ''Task completed!'' (Some ''A'') None None])
        ''References'' = Some ''A''"
proof -
  have sent:
    "send_email smtp_accepts ''agent@mail.example'' ''user@mail.example'' ''Re: Job search''
         ''Task completed!'' (Some ''A'') None None []
       = (True, [build_message ''agent@mail.example'' ''user@mail.example'' ''Re: Job search''
                   ''Task completed!'' (Some ''A'') None None])"
    by (simp add: send_email_def smtp_accepts_def)
  from references_fallback [OF sent] sent show ?thesis by simp
qed


section \<open>Properties of the query engine\<close>

lemma interpret_query_returns: "\<exists>qi. interpret_query arun parse c = Inr qi"
  by (simp add: interpret_query_def split: sum.splits)

text \<open>
  Claim C6. When the LLM call raises, or it answers and the parser raises on the
  answer, \<open>interpret_query\<close> returns (it does not raise) the fallback
  interpretation, which requires clarification and carries one non-empty question.
\<close>

theorem interpret_query_fallback:
  "arun c = Inl e \<or> (arun c = Inr output \<and> parse output = Inl e) \<Longrightarrow>
     (\<exists>qi q. interpret_query arun parse c = Inr qi
        \<and> qi = fallback_interpretation
        \<and> task_type qi = ''unknown''
        \<and> requires_clarification qi
        \<and> qi_clarification_questions qi = Some [q] \<and> q \<noteq> [])"
  by (auto simp add: interpret_query_def fallback_interpretation_def)

theorem interpret_query_fallback_witness:
  "llm_unavailable ''find me a job'' = Inl (Exception ''Request timed out.'')
   \<and> interpret_query llm_unavailable parse_rejects ''find me a job''
       = Inr fallback_interpretation
   \<and> llm_answers ''find me a job'' = Inr ''I am not sure what you mean.''
   \<and> parse_rejects ''I am not sure what you mean.'' = Inl (Exception ''Invalid json output'')
   \<and> interpret_query llm_answers parse_rejects ''find me a job''
       = Inr fallback_interpretation
   \<and> requires_clarification fallback_interpretation"
  using interpret_query_fallback [of llm_unavailable "''find me a job''"
          "Exception ''Request timed out.''" "''''" parse_rejects]
        interpret_query_fallback [of llm_answers "''find me a job''"
          "Exception ''Invalid json output''" "''I am not sure what you mean.''" parse_rejects]
  by (auto simp add: llm_unavailable_def llm_answers_def parse_rejects_def)


section \<open>Properties of the task executor\<close>

lemma dict_get_dict_set: "dict_get (dict_set k v d) k = v"
  by (induction d) (auto simp add: dict_get_def)

text \<open>
  The executor of the repository never reports \<open>needs_confirmation\<close>: its result has
  the keys \<open>completed\<close> and \<open>results\<close>, or \<open>error\<close> and \<open>completed\<close>. With it,
  \<open>handle_task_with_confirmation\<close> makes one call and returns its outcome.
\<close>

lemma execute_task_no_confirmation:
  "execute_task agent_run py_str t ctx = (success, res, acts) \<Longrightarrow>
     dict_get res ''needs_confirmation'' = PNone"
  by (auto simp add: execute_task_def dict_get_def split: sum.splits)

lemma handle_with_execute_task:
  "handle_task_with_confirmation (execute_task agent_run py_str) py_str t cb ctx
     = Inr (execute_task agent_run py_str t ctx, [(t, ctx)])"
proof (cases "execute_task agent_run py_str t ctx")
  case (fields success res acts)
  then show ?thesis
    using execute_task_no_confirmation [OF fields]
    by (simp add: handle_task_with_confirmation_def)
qed

lemma map_of_dict_set: "map_of (dict_set k v d) = (map_of d)(k \<mapsto> v)"
  by (induction d) auto

text \<open>
  Claim C2, as amended. The method makes one call of the executor or two, never more,
  for every executor, callback and input, and the first call has the arguments it was
  given. It makes two calls exactly when the first execution succeeds and reports
  \<open>needs_confirmation\<close> and the callback returns an answer that Python's truth test
  accepts. The second call then has the task description extended by the answer, and
  the caller's context with the answer stored under \<open>user_confirmation\<close> and every
  other entry kept; its outcome is returned whatever it reports. In every other case
  the first call is the only one, and an outcome that is returned is the first one.
\<close>

theorem confirmation_at_most_one_retry:
  assumes "exec task_description ctx = (success, r, acts)"
  shows
    "(let H = handle_task_with_confirmation exec py_str task_description cb ctx;
          asked = (success \<and> truthy (dict_get r ''needs_confirmation''));
          answer = cb (dict_get_default r ''confirmation_options'' (PList []))
      in (length (executor_calls H) = 1 \<or> length (executor_calls H) = 2)
       \<and> hd (executor_calls H) = (task_description, ctx)
       \<and> (length (executor_calls H) = 2)
            = (asked \<and> (\<exists>sel. answer = Inr sel \<and> truthy sel))
       \<and> (\<forall>sel. asked \<and> answer = Inr sel \<and> truthy sel \<longrightarrow>
            (let task2 = task_description @ nl @ nl @ ''Confirmation received: ''
                         @ py_str sel;
                 ctx2 = dict_set ''user_confirmation'' sel (context_or_empty ctx)
             in H = Inr (exec task2 (Some ctx2),
                         [(task_description, ctx), (task2, Some ctx2)])
                \<and> map_of ctx2
                    = (map_of (context_or_empty ctx))(''user_confirmation'' \<mapsto> sel)))
       \<and> (\<not> (asked \<and> (\<exists>sel. answer = Inr sel \<and> truthy sel)) \<longrightarrow>
            executor_calls H = [(task_description, ctx)]
            \<and> (\<forall>out calls. H = Inr (out, calls) \<longrightarrow> out = (success, r, acts))))"
proof (cases "cb (dict_get_default r ''confirmation_options'' (PList []))")
  case (Inl e)
  with assms show ?thesis
    by (simp add: handle_task_with_confirmation_def Let_def)
next
  case (Inr sel)
  with assms show ?thesis
    by (auto simp add: handle_task_with_confirmation_def Let_def map_of_dict_set)
qed

theorem confirmation_at_most_one_retry_witness:
  "always_confirm ''Apply to the job'' (Some job_context) = (True, confirm_results, [])
   \<and> truthy (dict_get confirm_results ''needs_confirmation'')
   \<and> select_first (dict_get_default confirm_results ''confirmation_options'' (PList []))
       = Inr (PStr ''Senior Engineer'')
   \<and> truthy (PStr ''Senior Engineer'')
   \<and> handle_task_with_confirmation always_confirm py_str_scalar ''Apply to the job''
        select_first (Some job_context)
       = Inr ((True, confirm_results, []),
              [(''Apply to the job'', Some job_context),
               (''Apply to the job'' @ nl @ nl @ ''Confirmation received: Senior Engineer'',
                Some [(''site'', PStr ''jobs.example''), (''location'', PStr ''Paris''),
                      (''user_confirmation'', PStr ''Senior Engineer'')])])
   \<and> length (executor_calls
        (handle_task_with_confirmation always_confirm py_str_scalar ''Apply to the job''
           select_first (Some job_context))) = 2"
proof -
  have h1: "always_confirm ''Apply to the job'' (Some job_context) = (True, confirm_results, [])"
    by (simp add: always_confirm_def)
  have h2: "truthy (dict_get confirm_results ''needs_confirmation'')"
    by (simp add: confirm_results_def dict_get_def)
  have h3: "select_first (dict_get_default confirm_results ''confirmation_options'' (PList []))
              = Inr (PStr ''Senior Engineer'')"
    by (simp add: confirm_results_def dict_get_default_def select_first_def)
  from confirmation_at_most_one_retry
         [where exec = always_confirm and task_description = "''Apply to the job''"
            and ctx = "Some job_context" and success = True and r = confirm_results
            and acts = "[]" and cb = select_first and py_str = py_str_scalar,
          OF h1]
       h1 h2 h3
  show ?thesis by (simp add: Let_def always_confirm_def job_context_def)
qed

text \<open>
  Claim C2 as stated fails. With an executor that reports \<open>needs_confirmation\<close> and
  a callback that returns the selection \<open>0\<close>, the index of the first option, the
  method makes one call; so it does when the first execution reports
  \<open>needs_confirmation\<close> without success and the callback would select an option.
\<close>

theorem confirmation_one_retry_counterexample:
  "truthy (dict_get (fst (snd (always_confirm ''Apply to the job'' None))) ''needs_confirmation'')
   \<and> select_index (dict_get_default confirm_results ''confirmation_options'' (PList []))
       = Inr (PInt 0)
   \<and> handle_task_with_confirmation always_confirm py_str_scalar ''Apply to the job''
        select_index None
       = Inr ((True, confirm_results, []), [(''Apply to the job'', None)])
   \<and> length (executor_calls
        (handle_task_with_confirmation always_confirm py_str_scalar ''Apply to the job''
           select_index None)) = 1
   \<and> truthy (dict_get (fst (snd (failed_confirm ''Apply to the job'' None))) ''needs_confirmation'')
   \<and> select_first (dict_get_default confirm_results ''confirmation_options'' (PList []))
       = Inr (PStr ''Senior Engineer'')
   \<and> handle_task_with_confirmation failed_confirm py_str_scalar ''Apply to the job''
        select_first None
       = Inr ((False, confirm_results, []), [(''Apply to the job'', None)])
   \<and> length (executor_calls
        (handle_task_with_confirmation failed_confirm py_str_scalar ''Apply to the job''
           select_first None)) = 1"
  by (simp add: handle_task_with_confirmation_def always_confirm_def failed_confirm_def
        confirm_results_def select_index_def select_first_def dict_get_def
        dict_get_default_def)

text \<open>
  Claim C3, as amended. When the first execution succeeds and reports
  \<open>needs_confirmation\<close>, and the callback returns no selection (\<open>None\<close>, or any
  answer that Python's truth test rejects), \<open>handle_task_with_confirmation\<close> makes
  no second call and returns the outcome of the first execution as it is: success is
  true, the results are those of the execution, and no error is added.
\<close>

theorem confirmation_absent_first_outcome:
  assumes "exec task_description ctx = (True, r, acts)"
    and "truthy (dict_get r ''needs_confirmation'')"
    and "cb (dict_get_default r ''confirmation_options'' (PList [])) = Inr sel"
    and "\<not> truthy sel"
  shows "handle_task_with_confirmation exec py_str task_description cb ctx
           = Inr ((True, r, acts), [(task_description, ctx)])"
  using assms by (simp add: handle_task_with_confirmation_def Let_def)

theorem confirmation_absent_first_outcome_witness:
  "always_confirm ''Apply to the job'' None = (True, confirm_results, [])
   \<and> truthy (dict_get confirm_results ''needs_confirmation'')
   \<and> no_selection (dict_get_default confirm_results ''confirmation_options'' (PList []))
       = Inr PNone
   \<and> \<not> truthy PNone
   \<and> handle_task_with_confirmation always_confirm py_str_scalar ''Apply to the job''
        no_selection None
       = Inr ((True, confirm_results, []), [(''Apply to the job'', None)])"
proof -
  have h1: "always_confirm ''Apply to the job'' None = (True, confirm_results, [])"
    by (simp add: always_confirm_def)
  have h2: "truthy (dict_get confirm_results ''needs_confirmation'')"
    by (simp add: confirm_results_def dict_get_def)
  have h3: "no_selection (dict_get_default confirm_results ''confirmation_options'' (PList []))
              = Inr PNone"
    by (simp add: no_selection_def)
  have h4: "\<not> truthy PNone"
    by simp
  from confirmation_absent_first_outcome
         [where exec = always_confirm and task_description = "''Apply to the job''"
            and ctx = None and r = confirm_results and acts = "[]" and cb = no_selection
            and sel = PNone and py_str = py_str_scalar,
          OF h1 h2 h3 h4]
       h1 h2 h3 h4
  show ?thesis by simp
qed

text \<open>
  Claim C3 as stated fails: with an executor that reports \<open>needs_confirmation\<close> and a
  callback that returns \<open>None\<close>, the outcome is the successful first outcome, not a
  failure with the error "confirmation not provided".
\<close>

theorem confirmation_absent_counterexample:
  "truthy (dict_get (fst (snd (always_confirm ''Apply to the job'' None))) ''needs_confirmation'')
   \<and> no_selection (dict_get_default confirm_results ''confirmation_options'' (PList []))
       = Inr PNone
   \<and> handle_task_with_confirmation always_confirm py_str_scalar ''Apply to the job''
        no_selection None
       = Inr ((True, confirm_results, []), [(''Apply to the job'', None)])
   \<and> \<not> spec_confirmation_not_provided (True, confirm_results, [])"
  by (simp add: handle_task_with_confirmation_def always_confirm_def confirm_results_def
        no_selection_def dict_get_def dict_get_default_def spec_confirmation_not_provided_def)



section \<open>Properties of the workflow\<close>

subsection \<open>The constructor calls\<close>

text \<open>
  Each of the three calls \<open>AgentState(**state.model_dump(), ...)\<close> of the module
  writes out keywords that are fields of the model, hence keys of the dump: the call
  raises.
\<close>

lemma analyze_task_cases:
  "analyze_task s =
     (if task_details s = None then Inl (DuplicateKeyword ''task_details'') else Inr s)"
  by (simp add: analyze_task_def AgentState_call_def model_dump_keys_def)

lemma workflow_execute_task_raises:
  "workflow_execute_task s = Inl (DuplicateKeyword ''browser_state'')"
  by (simp add: workflow_execute_task_def AgentState_call_def model_dump_keys_def)

lemma run_handler_raises:
  "ainvoke py_str fuel entry_point s [] = Some (Inl e, executed) \<Longrightarrow>
     run py_str fuel s = Some (Inl (DuplicateKeyword ''error''))"
  by (simp add: run_def AgentState_call_def model_dump_keys_def)

lemma run_returns_graph_result:
  "run py_str fuel s = Some (Inr s') \<Longrightarrow>
     (\<exists>executed. ainvoke py_str fuel entry_point s [] = Some (Inr s', executed))"
  by (auto simp add: run_def AgentState_call_def model_dump_keys_def
        split: option.splits sum.splits)

text \<open>
  A run of the graph from the entry point that ends, ends by an exception of a node:
  every path to the report goes through the node \<open>execute_task\<close>, which raises.
  So \<open>run\<close> never returns a state; when the graph has ended, \<open>run\<close> raises from
  its handler.
\<close>

lemma graph_run_raises:
  assumes "n = AnalyzeTask \<or> n = RequestClarification \<or> n = ExecuteTask"
    and "ainvoke py_str fuel n s tr = Some (out, tr')"
  shows "\<exists>e. out = Inl e"
  using assms
proof (induction fuel arbitrary: n s tr)
  case 0
  then show ?case by auto
next
  case (Suc fuel)
  from Suc.prems(1) show ?case
  proof (elim disjE)
    assume n: "n = AnalyzeTask"
    show ?thesis
    proof (cases "task_details s = None")
      case True
      with n Suc.prems(2) show ?thesis by (auto simp add: analyze_task_cases)
    next
      case False
      with n Suc.prems(2)
      have "ainvoke py_str fuel (next_node AnalyzeTask s) s (tr @ [AnalyzeTask]) = Some (out, tr')"
        by (simp add: analyze_task_cases)
      moreover have "next_node AnalyzeTask s = AnalyzeTask
          \<or> next_node AnalyzeTask s = RequestClarification
          \<or> next_node AnalyzeTask s = ExecuteTask"
        by simp
      ultimately show ?thesis by (rule Suc.IH [rotated])
    qed
  next
    assume n: "n = RequestClarification"
    with Suc.prems(2) obtain s' where
      "ainvoke py_str fuel AnalyzeTask s' (tr @ [RequestClarification]) = Some (out, tr')"
      by (auto simp add: request_clarification_def split: option.splits if_splits)
    then show ?thesis by (rule Suc.IH [rotated]) simp
  next
    assume "n = ExecuteTask"
    with Suc.prems(2) show ?thesis by (auto simp add: workflow_execute_task_raises)
  qed
qed

lemma run_always_raises:
  "run py_str fuel s = Some r \<Longrightarrow> r = Inl (DuplicateKeyword ''error'')"
proof -
  assume r: "run py_str fuel s = Some r"
  then obtain out tr where g: "ainvoke py_str fuel entry_point s [] = Some (out, tr)"
    by (auto simp add: run_def split: option.splits)
  then obtain e where "out = Inl e"
    using graph_run_raises [of entry_point py_str fuel s "[]" out tr]
    by (auto simp add: entry_point_def)
  with g have "run py_str fuel s = Some (Inl (DuplicateKeyword ''error''))"
    by (simp add: run_handler_raises)
  with r show ?thesis by simp
qed

lemma ainvoke_more_fuel:
  "ainvoke py_str k n s tr = Some r \<Longrightarrow> ainvoke py_str (k + j) n s tr = Some r"
proof (induction k arbitrary: n s tr)
  case 0
  then show ?case by (cases j) (auto split: if_splits)
next
  case (Suc k)
  then show ?case by (auto split: if_splits sum.splits)
qed

subsection \<open>Clarification\<close>

text \<open>
  Claim C1, evaluated on the code. From a state that waits for the answer to a
  question, the clarification node clears \<open>needs_clarification\<close> and its edge leads to
  \<open>AnalyzeTask\<close>; the same run goes on to analyse again and to execute, although the
  run has received nothing but its initial state.
\<close>

theorem clarification_returns_to_analysis:
  "run_node py_str_scalar RequestClarification awaiting_state
     = Inr (awaiting_state\<lparr>conversation_history :=
                             [AIMessage (''I need some clarification:'' @ nl
                                         @ ''- Which job title?'')],
                           needs_clarification := False\<rparr>)
   \<and> next_node RequestClarification
        (awaiting_state\<lparr>conversation_history :=
                          [AIMessage (''I need some clarification:'' @ nl
                                      @ ''- Which job title?'')],
                        needs_clarification := False\<rparr>) = AnalyzeTask
   \<and> ainvoke py_str_scalar 4 entry_point awaiting_state []
       = Some (Inl (DuplicateKeyword ''browser_state''),
               [AnalyzeTask, RequestClarification, AnalyzeTask, ExecuteTask])"
  by (simp add: awaiting_state_def interpreted_state_def fresh_state_def
        request_clarification_def question_text_def entry_point_def eval_nat_numeral
        analyze_task_cases workflow_execute_task_raises needs_clarification_route_def)

subsection \<open>The routing predicate\<close>

text \<open>
  Claim C4, as amended. \<open>is_execution_complete\<close> is true exactly when the field
  \<open>completed\<close> is set and \<open>needs_clarification\<close> is not. Where the graph evaluates
  it, on the result of \<open>handle_execution_results\<close>, it agrees with
  \<open>result.success\<close> and not \<open>needs_clarification\<close>, provided that the state handled
  has \<open>completed\<close> set whenever its browser state reports the execution.
\<close>

theorem is_execution_complete_iff:
  "is_execution_complete s = (completed s \<and> \<not> needs_clarification s)
   \<and> ((browser_executed s \<longrightarrow> completed s) \<longrightarrow>
        (\<exists>s'. handle_execution_results s = Inr s'
           \<and> is_execution_complete s' = (spec_result_success s' \<and> \<not> needs_clarification s')))"
  by (auto simp add: is_execution_complete_def handle_execution_results_def
        spec_result_success_def dict_get_def)

theorem is_execution_complete_iff_witness:
  "is_execution_complete executed_state
   \<and> completed executed_state \<and> \<not> needs_clarification executed_state
   \<and> browser_executed executed_state
   \<and> handle_execution_results executed_state
       = Inr (executed_state\<lparr>results :=
                Some [(''success'', PBool True),
                      (''summary'', PStr ''Task completed successfully''),
                      (''details'',
                       PStr ''Browser automation task was executed as requested.'')]\<rparr>)
   \<and> is_execution_complete (executed_state\<lparr>results :=
                Some [(''success'', PBool True),
                      (''summary'', PStr ''Task completed successfully''),
                      (''details'',
                       PStr ''Browser automation task was executed as requested.'')]\<rparr>)
   \<and> spec_result_success (executed_state\<lparr>results :=
                Some [(''success'', PBool True),
                      (''summary'', PStr ''Task completed successfully''),
                      (''details'',
                       PStr ''Browser automation task was executed as requested.'')]\<rparr>)"
  using is_execution_complete_iff [of executed_state]
  by (simp add: executed_state_def interpreted_state_def fresh_state_def
        handle_execution_results_def browser_executed_def dict_get_default_def
        is_execution_complete_def spec_result_success_def dict_get_def)

text \<open>
  Claim C4 as stated fails: a state whose browser task ran and whose results are not
  yet recorded has \<open>completed\<close> set and no result, so the predicate is true where
  \<open>result.success\<close> is not.
\<close>

theorem is_execution_complete_counterexample:
  "is_execution_complete executed_state
   \<and> \<not> (spec_result_success executed_state \<and> \<not> needs_clarification executed_state)"
  by (simp add: executed_state_def interpreted_state_def fresh_state_def
        is_execution_complete_def spec_result_success_def)

subsection \<open>Clarification and completion exclude each other\<close>

lemma report_inv_step:
  assumes "report_inv (n, s)" and "n \<noteq> END" and "run_node py_str n s = Inr s'"
  shows "report_inv (next_node n s', s')"
proof (cases n)
  case PrepareReport
  with assms show ?thesis
    by (auto simp add: report_inv_def prepare_report_def split: option.splits)
qed (use assms in \<open>auto simp add: report_inv_def is_execution_complete_def\<close>)

lemma report_inv_reaches:
  "reaches py_str c c' \<Longrightarrow> report_inv c \<Longrightarrow> report_inv c'"
  by (induction rule: reaches.induct) (auto intro: report_inv_step)

text \<open>
  The report node and the end are reached from the handling of results: a state with
  the browser task run and \<open>completed\<close> set goes through \<open>PrepareReport\<close> to the end,
  with no clarification pending.
\<close>

lemma report_reached:
  "reaches py_str_scalar (HandleExecutionResults, executed_state)
     (END, executed_state\<lparr>
        results := Some [(''success'', PBool True),
                         (''summary'', PStr ''Task completed successfully''),
                         (''details'',
                          PStr ''Browser automation task was executed as requested.'')],
        conversation_history :=
          [AIMessage (''Task completed! Here's a summary:'' @ nl @ nl
                      @ ''Task completed successfully'')]\<rparr>)"
proof -
  let ?r = "[(''success'', PBool True),
             (''summary'', PStr ''Task completed successfully''),
             (''details'', PStr ''Browser automation task was executed as requested.'')]"
  let ?s1 = "executed_state\<lparr>results := Some ?r\<rparr>"
  let ?s2 = "executed_state\<lparr>results := Some ?r,
               conversation_history :=
                 [AIMessage (''Task completed! Here's a summary:'' @ nl @ nl
                             @ ''Task completed successfully'')]\<rparr>"
  have r1: "run_node py_str_scalar HandleExecutionResults executed_state = Inr ?s1"
    by (simp add: handle_execution_results_def browser_executed_def executed_state_def
          dict_get_default_def)
  have n1: "next_node HandleExecutionResults ?s1 = PrepareReport"
    by (simp add: is_execution_complete_def executed_state_def interpreted_state_def
          fresh_state_def)
  have r2: "run_node py_str_scalar PrepareReport ?s1 = Inr ?s2"
    by (simp add: prepare_report_def dict_get_default_def executed_state_def
          interpreted_state_def fresh_state_def)
  have "reaches py_str_scalar (HandleExecutionResults, executed_state)
          (next_node HandleExecutionResults ?s1, ?s1)"
    by (rule reaches.step [OF reaches.start _ r1]) simp
  then have "reaches py_str_scalar (HandleExecutionResults, executed_state) (PrepareReport, ?s1)"
    by (simp only: n1)
  then have "reaches py_str_scalar (HandleExecutionResults, executed_state)
               (next_node PrepareReport ?s2, ?s2)"
    by (rule reaches.step [OF _ _ r2]) simp
  then show ?thesis by simp
qed

text \<open>
  Claim C5. The phase of a conversation is the node of the graph it is at; the report
  phase is \<open>PrepareReport\<close> and the completed phase is \<open>END\<close>. In every
  configuration that a run passes through, from the entry point or from any other node
  before the report, with any initial state, a pending clarification excludes both: the
  report and the end are only reached with \<open>needs_clarification\<close> false.
\<close>

theorem clarification_excludes_completed:
  assumes "reaches py_str (n0, s0) (n, s)" and "n0 \<noteq> PrepareReport" and "n0 \<noteq> END"
    and "needs_clarification s"
  shows "n \<noteq> PrepareReport \<and> n \<noteq> END"
proof -
  have "report_inv (n0, s0)" using assms(2,3) by (simp add: report_inv_def)
  with assms(1) have "report_inv (n, s)" by (rule report_inv_reaches)
  with assms(4) show ?thesis by (auto simp add: report_inv_def)
qed

theorem clarification_excludes_completed_witness:
  "reaches py_str_scalar (entry_point, awaiting_state) (RequestClarification, awaiting_state)
   \<and> entry_point \<noteq> PrepareReport \<and> entry_point \<noteq> END
   \<and> needs_clarification awaiting_state
   \<and> RequestClarification \<noteq> PrepareReport \<and> RequestClarification \<noteq> END"
proof -
  have r: "run_node py_str_scalar AnalyzeTask awaiting_state = Inr awaiting_state"
    by (simp add: analyze_task_cases awaiting_state_def interpreted_state_def)
  have nc: "needs_clarification awaiting_state"
    by (simp add: awaiting_state_def)
  have "reaches py_str_scalar (AnalyzeTask, awaiting_state)
          (next_node AnalyzeTask awaiting_state, awaiting_state)"
    by (rule reaches.step [OF reaches.start _ r]) simp
  with nc have reach:
    "reaches py_str_scalar (entry_point, awaiting_state) (RequestClarification, awaiting_state)"
    by (simp add: needs_clarification_route_def entry_point_def)
  have e: "entry_point \<noteq> PrepareReport" "entry_point \<noteq> END"
    by (simp_all add: entry_point_def)
  from clarification_excludes_completed [OF reach e nc] reach e nc show ?thesis by simp
qed

subsection \<open>The run\<close>

text \<open>
  Claim C9, evaluated on the code. For a new conversation the first node raises; the
  handler of \<open>run\<close> then calls \<open>AgentState(**initial_state.model_dump(), error=str(e))\<close>,
  where \<open>error\<close> is already a key of the dump, so the handler raises in its turn and
  the exception leaves \<open>run\<close>: no state with the error recorded is returned.
\<close>

theorem run_propagates:
  "ainvoke py_str_scalar 10 entry_point fresh_state []
     = Some (Inl (DuplicateKeyword ''task_details''), [AnalyzeTask])
   \<and> run py_str_scalar 10 fresh_state = Some (Inl (DuplicateKeyword ''error''))"
  by (simp add: run_def fresh_state_def entry_point_def eval_nat_numeral analyze_task_cases
        AgentState_call_def model_dump_keys_def)

text \<open>
  The clarification node appends the questions to the history and clears
  \<open>needs_clarification\<close> exactly when \<open>clarification_questions\<close> is a non-empty
  list, and returns the state unchanged otherwise. From every initial state in which a
  pending clarification comes with a non-empty list of questions, the run of the graph
  stops within four node executions, whatever further fuel it is given, and executes
  the clarification node at most once; by \<open>graph_run_raises\<close> it stops with the
  exception of a node, not at \<open>END\<close>.
\<close>

lemma clarify_cycle_bounded:
  "request_clarification s =
     Inr (case clarification_questions s of
            None \<Rightarrow> s
          | Some qs \<Rightarrow> if qs = [] then s
                       else s\<lparr>conversation_history :=
                                conversation_history s @ [AIMessage (question_text qs)],
                              needs_clarification := False\<rparr>)
   \<and> ((needs_clarification s \<longrightarrow> (\<exists>q qs. clarification_questions s = Some (q # qs))) \<longrightarrow>
        (\<exists>out tr. (\<forall>j. ainvoke py_str (4 + j) entry_point s [] = Some (out, tr))
           \<and> length tr \<le> 4 \<and> count_list tr RequestClarification \<le> 1))"
proof (intro conjI impI)
  show "request_clarification s =
     Inr (case clarification_questions s of
            None \<Rightarrow> s
          | Some qs \<Rightarrow> if qs = [] then s
                       else s\<lparr>conversation_history :=
                                conversation_history s @ [AIMessage (question_text qs)],
                              needs_clarification := False\<rparr>)"
    by (simp add: request_clarification_def split: option.splits)
next
  assume pre: "needs_clarification s \<longrightarrow> (\<exists>q qs. clarification_questions s = Some (q # qs))"
  have "\<exists>out tr. ainvoke py_str 4 entry_point s [] = Some (out, tr)
           \<and> length tr \<le> 4 \<and> count_list tr RequestClarification \<le> 1"
    using pre
    by (cases "task_details s = None"; cases "needs_clarification s")
       (auto simp add: entry_point_def eval_nat_numeral analyze_task_cases
          workflow_execute_task_raises needs_clarification_route_def request_clarification_def)
  then obtain out tr where r: "ainvoke py_str 4 entry_point s [] = Some (out, tr)"
    and b: "length tr \<le> 4" "count_list tr RequestClarification \<le> 1" by blast
  from ainvoke_more_fuel [OF r] b
  show "\<exists>out tr. (\<forall>j. ainvoke py_str (4 + j) entry_point s [] = Some (out, tr))
           \<and> length tr \<le> 4 \<and> count_list tr RequestClarification \<le> 1"
    by blast
qed

text \<open>
  Without the condition the run need not end: with the task interpreted, a
  clarification pending and no question to ask, the clarification node changes nothing
  and the graph goes round between the two nodes for any fuel.
\<close>

lemma clarify_cycle_unbounded:
  assumes "task_details s \<noteq> None" and "needs_clarification s"
    and "clarification_questions s = None \<or> clarification_questions s = Some []"
  shows "ainvoke py_str fuel AnalyzeTask s tr = None
         \<and> ainvoke py_str fuel RequestClarification s tr = None"
  using assms
proof (induction fuel arbitrary: tr)
  case 0
  then show ?case by simp
next
  case (Suc fuel)
  then show ?case
    by (auto simp add: analyze_task_cases request_clarification_def
          needs_clarification_route_def)
qed


text \<open>
  Claim C10, evaluated on the code. Two initial states that satisfy the condition of
  the claim, one with no clarification pending and one with a pending clarification and
  a question to ask. The clarification node does what the claim says of it and runs
  once. The run does not arrive at \<open>END\<close>: the node \<open>execute_task\<close> raises for
  the keyword \<open>browser_state\<close>, given twice, and the run of the graph and \<open>run\<close>
  end with an exception, here within the 25 steps that the library allows.
\<close>

theorem clarified_run_raises:
  "\<not> needs_clarification interpreted_state
   \<and> run_node py_str_scalar AnalyzeTask interpreted_state = Inr interpreted_state
   \<and> next_node AnalyzeTask interpreted_state = ExecuteTask
   \<and> run_node py_str_scalar ExecuteTask interpreted_state
       = Inl (DuplicateKeyword ''browser_state'')
   \<and> ainvoke py_str_scalar 25 entry_point interpreted_state []
       = Some (Inl (DuplicateKeyword ''browser_state''), [AnalyzeTask, ExecuteTask])
   \<and> run py_str_scalar 25 interpreted_state = Some (Inl (DuplicateKeyword ''error''))
   \<and> needs_clarification awaiting_state
   \<and> clarification_questions awaiting_state = Some [''Which job title?'']
   \<and> run_node py_str_scalar RequestClarification awaiting_state
       = Inr (awaiting_state\<lparr>conversation_history :=
                               [AIMessage (''I need some clarification:'' @ nl
                                           @ ''- Which job title?'')],
                             needs_clarification := False\<rparr>)
   \<and> ainvoke py_str_scalar 25 entry_point awaiting_state []
       = Some (Inl (DuplicateKeyword ''browser_state''),
               [AnalyzeTask, RequestClarification, AnalyzeTask, ExecuteTask])
   \<and> run py_str_scalar 25 awaiting_state = Some (Inl (DuplicateKeyword ''error''))"
  by (simp add: run_def awaiting_state_def interpreted_state_def fresh_state_def
        request_clarification_def question_text_def entry_point_def eval_nat_numeral
        analyze_task_cases workflow_execute_task_raises needs_clarification_route_def
        AgentState_call_def model_dump_keys_def)

end
